theory Spec2Isabelle
  imports Main
begin

section \<open>JavaScript strings and arrays\<close>

text \<open>
  A JavaScript string is modelled as a \<^typ>\<open>string\<close>: a list of code units, restricted to
  the 8-bit range. \<open>s.length\<close> is \<^const>\<open>length\<close>, the empty string is the only falsy
  string, and a template literal is a concatenation with \<open>@\<close>.
\<close>

definition dq :: string where
  "dq = [CHR 0x22]"

text \<open>
  \<open>String.prototype.trim\<close> removes white space and line terminators from both ends:
  tab, line feed, vertical tab, form feed, carriage return, space and no-break space are
  the ones in the 8-bit range.
\<close>

definition js_whitespace :: "char \<Rightarrow> bool" where
  "js_whitespace c = (c \<in> set [CHR 0x09, CHR 0x0A, CHR 0x0B, CHR 0x0C, CHR 0x0D, CHR 0x20, CHR 0xA0])"

definition trim :: "string \<Rightarrow> string" where
  "trim s = rev (dropWhile js_whitespace (rev (dropWhile js_whitespace s)))"

text \<open>\<open>xs.slice(b, e)\<close> for non-negative \<open>b\<close> and \<open>e\<close>, on arrays and on strings.\<close>

definition slice :: "nat \<Rightarrow> nat \<Rightarrow> 'a list \<Rightarrow> 'a list" where
  "slice b e xs = drop b (take e xs)"

text \<open>\<open>String.prototype.toLowerCase\<close> on the 8-bit range: A-Z and the accented capitals.\<close>

definition toLowerCase_unit :: "char \<Rightarrow> char" where
  "toLowerCase_unit c =
     (let n = (of_char c :: nat) in
      if (65 \<le> n \<and> n \<le> 90) \<or> (192 \<le> n \<and> n \<le> 222 \<and> n \<noteq> 215)
      then char_of (n + 32) else c)"

definition toLowerCase :: "string \<Rightarrow> string" where
  "toLowerCase s = map toLowerCase_unit s"

fun startsWith :: "string \<Rightarrow> string \<Rightarrow> bool" where
  "startsWith s [] = True"
| "startsWith [] (p # ps) = False"
| "startsWith (c # cs) (p # ps) = (c = p \<and> startsWith cs ps)"

text \<open>\<open>s.includes(sub)\<close>: \<open>sub\<close> occurs in \<open>s\<close> as a contiguous run.\<close>

fun str_includes :: "string \<Rightarrow> string \<Rightarrow> bool" where
  "str_includes [] sub = (sub = [])"
| "str_includes (c # cs) sub = (startsWith (c # cs) sub \<or> str_includes cs sub)"

fun join :: "string \<Rightarrow> string list \<Rightarrow> string" where
  "join sep [] = []"
| "join sep [x] = x"
| "join sep (x # y # ys) = x @ sep @ join sep (y # ys)"

text \<open>A number in a template literal: the decimal digits of a natural number.\<close>

fun string_of_nat :: "nat \<Rightarrow> string" where
  "string_of_nat n =
     (if n < 10 then [''0123456789'' ! n]
      else string_of_nat (n div 10) @ [''0123456789'' ! (n mod 10)])"

text \<open>\<open>s.charAt(i)\<close> is the empty string out of range.\<close>

definition charAt :: "nat \<Rightarrow> string \<Rightarrow> string" where
  "charAt i s = (if i < length s then [s ! i] else [])"

text \<open>
  \<open>parseInt\<close> on a string of at most one code unit, as the extractor calls it on
  \<open>tagName.charAt(1)\<close>: a digit gives its value, anything else \<open>NaN\<close> (\<open>None\<close>).
\<close>

definition parseInt :: "string \<Rightarrow> nat option" where
  "parseInt s =
     (case s of
        [c] \<Rightarrow> (if c \<in> set ''0123456789'' then Some (of_char c - 48) else None)
      | _ \<Rightarrow> None)"

section \<open>The document seen by the extractor\<close>

text \<open>
  A document is its elements in document order, which is the order of
  \<open>querySelectorAll\<close>. An element carries its tag name, its text content, its attributes
  (for \<open>getAttribute\<close> and attribute selectors) and the properties the extractor reads;
  a property an element does not have is \<open>None\<close> (\<open>undefined\<close>). A form carries the
  controls that \<open>form.querySelectorAll('input, select, textarea')\<close> finds under it.
\<close>

record form_control =
  control_tagName :: string
  control_type :: string
  control_name :: string
  control_placeholder :: string
  control_required :: bool

record dom_element =
  tagName :: string
  textContent :: string
  attributes :: "(string \<times> string) list"
  value_prop :: "string option"
  type_prop :: "string option"
  href_prop :: "string option"
  content_prop :: "string option"
  action_prop :: string
  method_prop :: string
  controls :: "form_control list"

record document =
  doc_title :: string
  location_href :: string
  elements :: "dom_element list"
  selection :: string

definition getAttribute :: "dom_element \<Rightarrow> string \<Rightarrow> string option" where
  "getAttribute el name = map_of (attributes el) name"

definition has_tag :: "dom_element \<Rightarrow> string \<Rightarrow> bool" where
  "has_tag el t = (toLowerCase (tagName el) = t)"

definition querySelectorAll :: "(dom_element \<Rightarrow> bool) \<Rightarrow> document \<Rightarrow> dom_element list" where
  "querySelectorAll sel d = filter sel (elements d)"

definition querySelector :: "(dom_element \<Rightarrow> bool) \<Rightarrow> document \<Rightarrow> dom_element option" where
  "querySelector sel d = List.find sel (elements d)"

text \<open>
  The selectors of the source. Tag names match without regard to case, as in an HTML
  document. The value of the \<open>type\<close> attribute is matched without regard to the case of
  the letters A-Z, as HTML prescribes for that attribute; the values of \<open>role\<close> and \<open>name\<close>
  are compared as written.
\<close>

definition ascii_lowercase :: "string \<Rightarrow> string" where
  "ascii_lowercase s =
     map (\<lambda>c. let n = (of_char c :: nat) in if 65 \<le> n \<and> n \<le> 90 then char_of (n + 32) else c) s"

definition type_attr_is :: "dom_element \<Rightarrow> string \<Rightarrow> bool" where
  "type_attr_is el v =
     (case getAttribute el ''type'' of None \<Rightarrow> False | Some a \<Rightarrow> ascii_lowercase a = v)"

definition sel_headings :: "dom_element \<Rightarrow> bool" where
  "sel_headings el = (toLowerCase (tagName el) \<in> set [''h1'', ''h2'', ''h3'', ''h4'', ''h5'', ''h6''])"

definition sel_meta_description :: "dom_element \<Rightarrow> bool" where
  "sel_meta_description el = (has_tag el ''meta'' \<and> getAttribute el ''name'' = Some ''description'')"

definition sel_actions_content :: "dom_element \<Rightarrow> bool" where
  "sel_actions_content el =
     (has_tag el ''button''
      \<or> (has_tag el ''a'' \<and> getAttribute el ''href'' \<noteq> None)
      \<or> getAttribute el ''role'' = Some ''button''
      \<or> (has_tag el ''input'' \<and> type_attr_is el ''submit'')
      \<or> (has_tag el ''input'' \<and> type_attr_is el ''button''))"

definition sel_actions_background :: "dom_element \<Rightarrow> bool" where
  "sel_actions_background el =
     (has_tag el ''button''
      \<or> (has_tag el ''a'' \<and> getAttribute el ''href'' \<noteq> None)
      \<or> getAttribute el ''role'' = Some ''button'')"

definition sel_forms :: "dom_element \<Rightarrow> bool" where
  "sel_forms el = has_tag el ''form''"

definition sel_paragraphs :: "dom_element \<Rightarrow> bool" where
  "sel_paragraphs el = has_tag el ''p''"

text \<open>\<open>a || b\<close> on strings that may be \<open>undefined\<close> or \<open>null\<close>: the first truthy one.\<close>

definition truthy :: "string option \<Rightarrow> bool" where
  "truthy v = (case v of None \<Rightarrow> False | Some s \<Rightarrow> s \<noteq> [])"

definition or_else :: "string option \<Rightarrow> string \<Rightarrow> string" where
  "or_else v d = (case v of None \<Rightarrow> d | Some s \<Rightarrow> if s = [] then d else s)"

section \<open>The page context\<close>

record heading =
  level :: "nat option"
  h_text :: string

record action =
  a_text :: string
  a_type :: string
  a_href :: "string option"

datatype form_input =
  InputInfo string string string bool
| InputType string

record form =
  f_action :: string
  f_method :: string
  f_inputs :: "form_input list"

record page_context =
  title :: string
  url :: string
  meta_description :: string
  headings :: "heading list"
  actions :: "action list"
  forms :: "form list"
  selected_text :: string
  paragraphs :: "string list option"
  extracted_at :: string
  extraction_time :: "nat option"

section \<open>The extractor of the content script (content.js)\<close>

definition metaDescription_of :: "document \<Rightarrow> string" where
  "metaDescription_of d =
     (case querySelector sel_meta_description d of
        None \<Rightarrow> []
      | Some el \<Rightarrow> or_else (content_prop el) [])"

definition heading_of :: "dom_element \<Rightarrow> heading" where
  "heading_of h = \<lparr> level = parseInt (charAt 1 (tagName h)), h_text = trim (textContent h) \<rparr>"

definition content_heading_ok :: "heading \<Rightarrow> bool" where
  "content_heading_ok h = (length (h_text h) > 0 \<and> length (h_text h) < 200)"

definition content_headings :: "document \<Rightarrow> heading list" where
  "content_headings d =
     filter content_heading_ok (map heading_of (slice 0 10 (querySelectorAll sel_headings d)))"

definition content_action_text :: "dom_element \<Rightarrow> string" where
  "content_action_text el =
     trim (if textContent el \<noteq> [] then textContent el
           else if truthy (value_prop el) then the (value_prop el)
           else or_else (getAttribute el ''aria-label'') [])"

definition content_action_of :: "dom_element \<Rightarrow> action" where
  "content_action_of el =
     \<lparr> a_text = slice 0 50 (content_action_text el),
       a_type = (if toLowerCase (tagName el) = ''button'' \<or> type_prop el = Some ''button''
                    \<or> type_prop el = Some ''submit''
                 then ''button'' else ''link''),
       a_href = (if truthy (href_prop el) then href_prop el else None) \<rparr>"

definition content_action_ok :: "action \<Rightarrow> bool" where
  "content_action_ok a = (length (a_text a) > 0 \<and> length (a_text a) > 2)"

definition content_actions :: "document \<Rightarrow> action list" where
  "content_actions d =
     filter content_action_ok
       (map content_action_of (slice 0 20 (querySelectorAll sel_actions_content d)))"

definition content_input_of :: "form_control \<Rightarrow> form_input" where
  "content_input_of i =
     InputInfo (if control_type i \<noteq> [] then control_type i else toLowerCase (control_tagName i))
               (control_name i) (control_placeholder i) (control_required i)"

definition content_form_of :: "document \<Rightarrow> dom_element \<Rightarrow> form" where
  "content_form_of d f =
     \<lparr> f_action = (if action_prop f \<noteq> [] then action_prop f else location_href d),
       f_method = (if method_prop f \<noteq> [] then method_prop f else ''GET''),
       f_inputs = map content_input_of (controls f) \<rparr>"

definition content_forms :: "document \<Rightarrow> form list" where
  "content_forms d = map (content_form_of d) (slice 0 5 (querySelectorAll sel_forms d))"

definition content_paragraphs :: "document \<Rightarrow> string list" where
  "content_paragraphs d =
     filter (\<lambda>t. length t > 20 \<and> length t < 500)
       (map (\<lambda>p. trim (textContent p)) (slice 0 5 (querySelectorAll sel_paragraphs d)))"

text \<open>
  \<open>extractPageContext\<close> of content.js. The clock is read twice: \<open>now\<close> is the ISO time
  stamp and \<open>elapsed\<close> the rounded duration, both given from outside.
\<close>

definition extractPageContext :: "string \<Rightarrow> nat \<Rightarrow> document \<Rightarrow> page_context" where
  "extractPageContext now elapsed d =
     \<lparr> title = doc_title d,
       url = location_href d,
       meta_description = metaDescription_of d,
       headings = content_headings d,
       actions = content_actions d,
       forms = content_forms d,
       selected_text = trim (selection d),
       paragraphs = Some (content_paragraphs d),
       extracted_at = now,
       extraction_time = Some elapsed \<rparr>"

section \<open>The extractor injected by the background script (background.js)\<close>

definition background_headings :: "document \<Rightarrow> heading list" where
  "background_headings d =
     filter (\<lambda>h. length (h_text h) > 0)
       (map heading_of (slice 0 10 (querySelectorAll sel_headings d)))"

definition background_action_of :: "dom_element \<Rightarrow> action" where
  "background_action_of el =
     \<lparr> a_text = slice 0 50
                  (trim (if textContent el \<noteq> [] then textContent el
                         else or_else (getAttribute el ''aria-label'') [])),
       a_type = (if toLowerCase (tagName el) = ''button'' then ''button'' else ''link''),
       a_href = None \<rparr>"

definition background_actions :: "document \<Rightarrow> action list" where
  "background_actions d =
     filter (\<lambda>a. length (a_text a) > 0)
       (map background_action_of (slice 0 20 (querySelectorAll sel_actions_background d)))"

definition background_form_of :: "document \<Rightarrow> dom_element \<Rightarrow> form" where
  "background_form_of d f =
     \<lparr> f_action = (if action_prop f \<noteq> [] then action_prop f else location_href d),
       f_method = (if method_prop f \<noteq> [] then method_prop f else ''GET''),
       f_inputs = map (\<lambda>i. InputType (if control_type i \<noteq> [] then control_type i
                                        else toLowerCase (control_tagName i)))
                      (controls f) \<rparr>"

definition background_forms :: "document \<Rightarrow> form list" where
  "background_forms d = map (background_form_of d) (slice 0 5 (querySelectorAll sel_forms d))"

definition extractPageContext_background :: "string \<Rightarrow> document \<Rightarrow> page_context" where
  "extractPageContext_background now d =
     \<lparr> title = doc_title d,
       url = location_href d,
       meta_description = metaDescription_of d,
       headings = background_headings d,
       actions = background_actions d,
       forms = background_forms d,
       selected_text = trim (selection d),
       paragraphs = None,
       extracted_at = now,
       extraction_time = None \<rparr>"

section \<open>The fallback answerer (generateContextualAnswer)\<close>

definition quoted :: "string \<Rightarrow> string" where
  "quoted s = dq @ s @ dq"

definition getPageType :: "page_context \<Rightarrow> string" where
  "getPageType context =
     (let title_l = toLowerCase (title context);
          url_l = toLowerCase (url context);
          headingText = join '' '' (map (\<lambda>h. toLowerCase (h_text h)) (headings context))
      in if str_includes url_l ''docs'' \<or> str_includes url_l ''documentation''
           then ''a documentation page''
         else if str_includes url_l ''api'' then ''an API reference page''
         else if str_includes url_l ''blog'' \<or> str_includes url_l ''article''
           then ''a blog post or article''
         else if str_includes url_l ''shop'' \<or> str_includes url_l ''store''
                 \<or> str_includes url_l ''buy''
           then ''an e-commerce page''
         else if str_includes url_l ''login'' \<or> str_includes url_l ''signup''
           then ''a login or registration page''
         else if str_includes title_l ''home'' \<or> url_l = ''/'' \<or> str_includes url_l ''index''
           then ''a homepage''
         else if str_includes headingText ''tutorial'' \<or> str_includes headingText ''guide''
           then ''a tutorial or guide''
         else if str_includes headingText ''about'' then ''an about page''
         else if str_includes headingText ''contact'' then ''a contact page''
         else ''a web page'')"

definition analyzeSelectedText :: "string \<Rightarrow> page_context \<Rightarrow> string" where
  "analyzeSelectedText text context =
     (if length text < 10 then ''a short phrase or keyword''
      else if length text > 200 then ''a longer passage of text''
      else if str_includes text ''API'' \<or> str_includes text ''function''
              \<or> str_includes text ''code''
        then ''technical content related to programming or APIs''
      else if str_includes text ''$'' \<or> str_includes text ''price'' \<or> str_includes text ''cost''
        then ''pricing or cost information''
      else ''important content you highlighted'')"

text \<open>The templated answers, one for each branch of \<open>generateContextualAnswer\<close>.\<close>

definition page_identity_answer :: "page_context \<Rightarrow> string" where
  "page_identity_answer context =
     ''This page is titled '' @ quoted (title context) @ '' and appears to be ''
     @ getPageType context @ ''. ''
     @ (if meta_description context \<noteq> []
        then ''The page description states: '' @ quoted (meta_description context) @ ''. ''
        else [])
     @ ''It contains '' @ string_of_nat (length (headings context))
     @ '' main headings and '' @ string_of_nat (length (actions context))
     @ '' interactive elements like buttons and links.''"

definition title_answer :: "page_context \<Rightarrow> string" where
  "title_answer context =
     ''The page title is '' @ quoted (title context)
     @ ''. This gives us insight into the main topic or purpose of the page.''"

definition url_answer :: "page_context \<Rightarrow> string" where
  "url_answer context =
     ''The current page URL is: '' @ url context @ ''. ''
     @ (if length (actions context) > 0
        then ''The page also contains '' @ string_of_nat (length (actions context))
             @ '' clickable elements including buttons and links.''
        else [])"

definition headings_answer :: "page_context \<Rightarrow> string" where
  "headings_answer context =
     (if length (headings context) > 0
      then ''The page has '' @ string_of_nat (length (headings context))
           @ '' main headings. The first few are: ''
           @ join '', '' (map (\<lambda>h. quoted (h_text h)) (slice 0 5 (headings context)))
           @ ''. These headings help organize the content into different sections.''
      else ''This page doesn't appear to have clear section headings, which might indicate it's a simple page or uses a different content structure.'')"

definition actions_answer :: "page_context \<Rightarrow> string" where
  "actions_answer context =
     (if length (actions context) > 0
      then
        (let buttonActions = slice 0 3 (filter (\<lambda>a. a_type a = ''button'') (actions context));
             linkActions = slice 0 3 (filter (\<lambda>a. a_type a = ''link'') (actions context))
         in ''The page has '' @ string_of_nat (length (actions context))
            @ '' interactive elements. ''
            @ (if length buttonActions > 0
               then ''Buttons include: ''
                    @ join '', '' (map (\<lambda>a. quoted (a_text a)) buttonActions) @ ''. ''
               else [])
            @ (if length linkActions > 0
               then ''Links include: ''
                    @ join '', '' (map (\<lambda>a. quoted (a_text a)) linkActions) @ ''.''
               else []))
      else ''This page doesn't appear to have many interactive buttons or clickable elements. It might be primarily informational content.'')"

definition selection_answer :: "page_context \<Rightarrow> string" where
  "selection_answer context =
     ''You have selected the text: '' @ quoted (selected_text context)
     @ ''. This appears to be '' @ analyzeSelectedText (selected_text context) context
     @ ''. Would you like me to explain this content in more detail?''"

definition summary_answer :: "page_context \<Rightarrow> string" where
  "summary_answer context =
     ''Based on the page context, this appears to be '' @ getPageType context
     @ '' titled '' @ quoted (title context) @ ''. ''
     @ (if meta_description context \<noteq> [] then meta_description context
        else ''The page contains organized content with multiple sections and interactive elements.'')
     @ '' ''
     @ (if length (headings context) > 0
        then ''The main topics covered include sections on ''
             @ join '', '' (map (\<lambda>h. toLowerCase (h_text h)) (slice 0 3 (headings context)))
             @ ''.''
        else [])"

definition helpfulActions :: "page_context \<Rightarrow> action list" where
  "helpfulActions context =
     filter (\<lambda>a. str_includes (toLowerCase (a_text a)) ''help''
                 \<or> str_includes (toLowerCase (a_text a)) ''support''
                 \<or> str_includes (toLowerCase (a_text a)) ''guide''
                 \<or> str_includes (toLowerCase (a_text a)) ''tutorial'')
            (actions context)"

definition help_answer :: "page_context \<Rightarrow> string" where
  "help_answer context =
     (if length (actions context) > 0 \<and> length (helpfulActions context) > 0
      then ''For help with this page, you can try clicking on: ''
           @ join '', '' (map (\<lambda>a. quoted (a_text a)) (helpfulActions context))
           @ ''. The page also has '' @ string_of_nat (length (actions context))
           @ '' total interactive elements that might provide additional assistance.''
      else
        (let titled =
               join '', ''
                 (map (\<lambda>h. quoted (h_text h))
                    (filter (\<lambda>h. str_includes (toLowerCase (h_text h)) ''help''
                                 \<or> str_includes (toLowerCase (h_text h)) ''guide'')
                            (headings context)))
         in ''To get help with this page content, look for sections titled ''
            @ (if titled \<noteq> [] then titled else ''help or support'') @ ''. ''
            @ (if length (actions context) > 0
               then ''You can also try the '' @ string_of_nat (length (actions context))
                    @ '' interactive elements on the page.''
               else [])))"

definition default_answer :: "page_context \<Rightarrow> string" where
  "default_answer context =
     ''Based on the page '' @ quoted (title context) @ '', I can see ''
     @ string_of_nat (length (headings context)) @ '' main sections and ''
     @ string_of_nat (length (actions context)) @ '' interactive elements. ''
     @ (if selected_text context \<noteq> []
        then ''You've selected: '' @ quoted (selected_text context) @ ''. ''
        else [])
     @ ''Could you be more specific about what you'd like to know about this page? I can help explain the content, navigation options, or specific sections.''"

definition generateContextualAnswer :: "string \<Rightarrow> page_context \<Rightarrow> string" where
  "generateContextualAnswer question context =
     (let questionLower = toLowerCase question in
      if str_includes questionLower ''what'' \<and> str_includes questionLower ''page''
        then page_identity_answer context
      else if str_includes questionLower ''title''
        then title_answer context
      else if str_includes questionLower ''url'' \<or> str_includes questionLower ''link''
        then url_answer context
      else if str_includes questionLower ''heading'' \<or> str_includes questionLower ''section''
        then headings_answer context
      else if str_includes questionLower ''button'' \<or> str_includes questionLower ''click''
              \<or> str_includes questionLower ''action''
        then actions_answer context
      else if selected_text context \<noteq> []
              \<and> (str_includes questionLower ''selected''
                   \<or> str_includes questionLower ''highlight'')
        then selection_answer context
      else if str_includes questionLower ''summary'' \<or> str_includes questionLower ''about''
        then summary_answer context
      else if str_includes questionLower ''help'' \<or> str_includes questionLower ''how''
        then help_answer context
      else default_answer context)"

subsection \<open>The priority order as the specification words it\<close>

text \<open>
  The specification names eight keyword classes, tested in a fixed order, the first
  matching class giving the answer. \<open>answer_by_priority\<close> follows those words: it
  searches the list of classes for the first one whose keywords occur in the lower-cased
  question. It is compared with \<open>generateContextualAnswer\<close> below.
\<close>

datatype keyword_class =
  PageIdentity | Title | UrlLinks | HeadingsSections | ActionsButtons | Selection
| Summary | Help

definition priority_order :: "keyword_class list" where
  "priority_order =
     [PageIdentity, Title, UrlLinks, HeadingsSections, ActionsButtons, Selection, Summary, Help]"

fun class_matches :: "keyword_class \<Rightarrow> string \<Rightarrow> page_context \<Rightarrow> bool" where
  "class_matches PageIdentity ql context = (str_includes ql ''what'' \<and> str_includes ql ''page'')"
| "class_matches Title ql context = str_includes ql ''title''"
| "class_matches UrlLinks ql context = (str_includes ql ''url'' \<or> str_includes ql ''link'')"
| "class_matches HeadingsSections ql context =
     (str_includes ql ''heading'' \<or> str_includes ql ''section'')"
| "class_matches ActionsButtons ql context =
     (str_includes ql ''button'' \<or> str_includes ql ''click'' \<or> str_includes ql ''action'')"
| "class_matches Selection ql context =
     (selected_text context \<noteq> []
      \<and> (str_includes ql ''selected'' \<or> str_includes ql ''highlight''))"
| "class_matches Summary ql context = (str_includes ql ''summary'' \<or> str_includes ql ''about'')"
| "class_matches Help ql context = (str_includes ql ''help'' \<or> str_includes ql ''how'')"

fun class_answer :: "keyword_class \<Rightarrow> page_context \<Rightarrow> string" where
  "class_answer PageIdentity context = page_identity_answer context"
| "class_answer Title context = title_answer context"
| "class_answer UrlLinks context = url_answer context"
| "class_answer HeadingsSections context = headings_answer context"
| "class_answer ActionsButtons context = actions_answer context"
| "class_answer Selection context = selection_answer context"
| "class_answer Summary context = summary_answer context"
| "class_answer Help context = help_answer context"

definition answer_by_priority :: "string \<Rightarrow> page_context \<Rightarrow> string" where
  "answer_by_priority question context =
     (case List.find (\<lambda>k. class_matches k (toLowerCase question) context) priority_order of
        Some k \<Rightarrow> class_answer k context
      | None \<Rightarrow> default_answer context)"

section \<open>The classifier (analyzePageContext)\<close>

record content_structure =
  cs_headings :: nat
  cs_actions :: nat
  cs_forms :: nat

record page_analysis =
  pageType :: string
  complexity :: string
  interactivity :: string
  hasSelectedContent :: bool
  contentStructure :: content_structure

definition analyzePageContext :: "page_context \<Rightarrow> page_analysis" where
  "analyzePageContext context =
     \<lparr> pageType = getPageType context,
       complexity = (if length (headings context) > 5 then ''high''
                     else if length (headings context) > 2 then ''medium'' else ''low''),
       interactivity = (if length (actions context) > 10 then ''high''
                        else if length (actions context) > 3 then ''medium'' else ''low''),
       hasSelectedContent = (selected_text context \<noteq> []),
       contentStructure = \<lparr> cs_headings = length (headings context),
                            cs_actions = length (actions context),
                            cs_forms = length (forms context) \<rparr> \<rparr>"

section \<open>The dispatcher (generateAIResponse)\<close>

text \<open>
  The remote model call is external: its outcome is a parameter. The promise is either
  rejected (network fault, timeout, a non-success status, which the client library
  raises) or resolved with a payload. The payload is read as
  \<open>response.choices[0].message.content\<close>; a missing \<open>choices\<close>, an empty one and a missing
  \<open>message\<close> raise a \<open>TypeError\<close> at that read. The prompt built before the call only
  feeds the call and is not modelled.
\<close>

datatype js_error = ApiError | TypeError

datatype chat_message = ChatMessage (content: "string option")

datatype chat_choice = ChatChoice (message: "chat_message option")

datatype chat_completion = ChatCompletion (choices: "chat_choice list option")

datatype remote_outcome = Rejected | Resolved chat_completion

definition no_response_text :: string where
  "no_response_text = ''I couldn't generate a response. Please try again.''"

text \<open>The body of the \<open>try\<close> block: the value returned, or the error raised in it.\<close>

definition generateAIResponse_try :: "remote_outcome \<Rightarrow> js_error + string" where
  "generateAIResponse_try outcome =
     (case outcome of
        Rejected \<Rightarrow> Inl ApiError
      | Resolved response \<Rightarrow>
          (case choices response of
             None \<Rightarrow> Inl TypeError
           | Some [] \<Rightarrow> Inl TypeError
           | Some (c # _) \<Rightarrow>
               (case message c of
                  None \<Rightarrow> Inl TypeError
                | Some m \<Rightarrow> Inr (or_else (content m) no_response_text))))"

text \<open>
  \<open>generateAIResponse\<close>: the \<open>catch\<close> clause covers the whole body and returns the
  fallback answer for the same question and context. The result is the settled promise:
  \<open>Inr\<close> the answer, \<open>Inl\<close> a rejection.
\<close>

definition generateAIResponse ::
  "remote_outcome \<Rightarrow> string \<Rightarrow> page_context \<Rightarrow> js_error + string" where
  "generateAIResponse outcome question context =
     (case generateAIResponse_try outcome of
        Inr answer \<Rightarrow> Inr answer
      | Inl error \<Rightarrow> Inr (generateContextualAnswer question context))"

text \<open>
  A failed remote call: a rejected promise, or a payload that lacks the structure the
  response type promises.
\<close>

definition malformed_payload :: "chat_completion \<Rightarrow> bool" where
  "malformed_payload response =
     (case choices response of
        None \<Rightarrow> True
      | Some cs \<Rightarrow> (case cs of [] \<Rightarrow> True | c # _ \<Rightarrow> message c = None))"

definition remote_call_failed :: "remote_outcome \<Rightarrow> bool" where
  "remote_call_failed outcome =
     (case outcome of Rejected \<Rightarrow> True | Resolved response \<Rightarrow> malformed_payload response)"

section \<open>The coordinator (background.js)\<close>

text \<open>
  The background script keeps two variables, \<open>currentContext\<close> and \<open>currentTabId\<close>
  (\<open>None\<close> is \<open>null\<close>). The stored context is the received context with the sender's tab
  id and url added. There is no generation counter in the script: a result is told
  apart only by the tab that sent it.

  Both tab listeners await the call that enables the side panel, and other listeners can
  run while it is pending. The activation listener sets \<open>currentTabId\<close> before the call
  and clears \<open>currentContext\<close> only after it: \<open>tabs_onActivated\<close> is the listener up to the
  \<open>await\<close>, and \<open>tabs_onActivated_resumed\<close> its continuation, which runs when the call
  resolves and never when it is rejected. The update listener makes both assignments
  before the call, so it is one step.
\<close>

record sender_tab =
  tab_id :: nat
  tab_url :: string

record stored_context =
  ctx :: page_context
  tabId :: nat
  tabUrl :: string

record background_state =
  currentContext :: "stored_context option"
  currentTabId :: "nat option"

definition tabs_onActivated :: "nat \<Rightarrow> background_state \<Rightarrow> background_state" where
  "tabs_onActivated activeTabId s = s\<lparr> currentTabId := Some activeTabId \<rparr>"

definition tabs_onActivated_resumed :: "background_state \<Rightarrow> background_state" where
  "tabs_onActivated_resumed s = s\<lparr> currentContext := None \<rparr>"

definition tabs_onUpdated :: "nat \<Rightarrow> string \<Rightarrow> bool \<Rightarrow> background_state \<Rightarrow> background_state" where
  "tabs_onUpdated updatedTabId status tab_active s =
     (if status = ''complete'' \<and> tab_active
      then s\<lparr> currentTabId := Some updatedTabId, currentContext := None \<rparr>
      else s)"

definition handleContextExtracted ::
  "page_context \<Rightarrow> sender_tab option \<Rightarrow> background_state \<Rightarrow> background_state" where
  "handleContextExtracted request_context sender s =
     (case sender of
        None \<Rightarrow> s
      | Some tab \<Rightarrow>
          if Some (tab_id tab) = currentTabId s
          then s\<lparr> currentContext :=
                    Some \<lparr> ctx = request_context, tabId = tab_id tab, tabUrl = tab_url tab \<rparr> \<rparr>
          else s)"

definition handleSelectionChanged ::
  "string \<Rightarrow> sender_tab option \<Rightarrow> background_state \<Rightarrow> background_state" where
  "handleSelectionChanged selectedText sender s =
     (case sender of
        None \<Rightarrow> s
      | Some tab \<Rightarrow>
          (case currentContext s of
             None \<Rightarrow> s
           | Some c \<Rightarrow>
               if Some (tab_id tab) = currentTabId s
               then s\<lparr> currentContext :=
                         Some (c\<lparr> ctx := (ctx c)\<lparr> selected_text := selectedText \<rparr> \<rparr>) \<rparr>
               else s))"

text \<open>The scenario of a late result: tab 1 is current and holds a context.\<close>

definition empty_context :: page_context where
  "empty_context =
     \<lparr> title = [], url = [], meta_description = [], headings = [], actions = [], forms = [],
       selected_text = [], paragraphs = None, extracted_at = [], extraction_time = None \<rparr>"

definition old_page_context :: page_context where
  "old_page_context = empty_context\<lparr> title := ''Old page'', url := ''https://a.example/old'' \<rparr>"

definition tab_one :: sender_tab where
  "tab_one = \<lparr> tab_id = 1, tab_url = ''https://a.example/old'' \<rparr>"

definition tab_two :: sender_tab where
  "tab_two = \<lparr> tab_id = 2, tab_url = ''https://b.example/'' \<rparr>"

definition session_on_tab_one :: background_state where
  "session_on_tab_one = \<lparr> currentContext = None, currentTabId = Some 1 \<rparr>"

definition session_with_context :: background_state where
  "session_with_context =
     \<lparr> currentContext =
         Some \<lparr> ctx = old_page_context, tabId = 1, tabUrl = ''https://a.example/old'' \<rparr>,
       currentTabId = Some 1 \<rparr>"

section \<open>The panel controller (sidepanel.js)\<close>

text \<open>
  The panel state is the \<open>state\<close> object of \<open>SidePanelApp\<close>, generic in the type of the
  page context it holds. The React panel (extension-panel.tsx) has the same guard in
  \<open>submitQuestion\<close>, the same history update and the same key handler.
\<close>

record conversation_item =
  ci_question :: string
  ci_answer :: "string option"
  ci_timestamp :: string

record 'c panel_state =
  pageContext :: "'c option"
  question :: string
  answer :: "string option"
  isLoading :: bool
  isJsonExpanded :: bool
  connectionStatus :: string
  error :: "string option"
  conversationHistory :: "conversation_item list"

record 'c ask_request =
  ask_question :: string
  ask_context :: 'c

definition initial_state :: "'c panel_state" where
  "initial_state =
     \<lparr> pageContext = None, question = [], answer = None, isLoading = False,
       isJsonExpanded = False, connectionStatus = ''disconnected'', error = None,
       conversationHistory = [] \<rparr>"

text \<open>
  The outcome of \<open>fetch\<close> followed by \<open>response.json()\<close>: the request is rejected, or a
  response arrives with its \<open>ok\<close> flag, its status, and its body; the body is \<open>None\<close> when
  it does not parse and otherwise holds \<open>data.answer\<close> (\<open>None\<close> when the field is absent).
\<close>

datatype fetch_result =
  FetchRejected
| FetchResponse bool nat "string option option"

text \<open>
  \<open>updateState\<close> assigns the new state and then calls \<open>render\<close>. The template of
  \<open>render\<close> reads \<open>item.answer.slice\<close> for every entry of the history, which raises a
  \<open>TypeError\<close> when an entry has no answer; the state is assigned by then.
\<close>

definition render_throws :: "'c panel_state \<Rightarrow> bool" where
  "render_throws s = list_ex (\<lambda>item. ci_answer item = None) (conversationHistory s)"

text \<open>
  \<open>submitQuestion\<close> up to its \<open>await\<close>: the guard, the state update, and the request
  sent to the backend. No request is sent when the guard returns early, nor when the
  state update, which stands before the \<open>try\<close>, raises.
\<close>

definition submitQuestion :: "'c panel_state \<Rightarrow> 'c panel_state \<times> 'c ask_request list" where
  "submitQuestion s =
     (if trim (question s) = [] \<or> pageContext s = None then (s, [])
      else
        (let s1 = s\<lparr> isLoading := True, error := None \<rparr> in
         if render_throws s1 then (s1, [])
         else (s1, [\<lparr> ask_question = question s, ask_context = the (pageContext s) \<rparr>])))"

text \<open>
  \<open>submitQuestion\<close> after the \<open>await\<close>, when the request has settled at time \<open>now\<close>. The
  state update of the success path stands inside the \<open>try\<close>: when its \<open>render\<close> raises,
  the \<open>catch\<close> clause runs on the state already assigned.
\<close>

definition submit_failed_text :: string where
  "submit_failed_text = ''Failed to get response from backend. Please check if the server is running.''"

definition submitQuestion_settled ::
  "fetch_result \<Rightarrow> string \<Rightarrow> 'c panel_state \<Rightarrow> 'c panel_state" where
  "submitQuestion_settled r now s =
     (case r of
        FetchResponse True status (Some data_answer) \<Rightarrow>
          (let s1 = s\<lparr> answer := data_answer,
                        question := [],
                        isLoading := False,
                        conversationHistory :=
                          \<lparr> ci_question = question s, ci_answer = data_answer,
                            ci_timestamp = now \<rparr>
                          # slice 0 9 (conversationHistory s) \<rparr>
           in if render_throws s1
              then s1\<lparr> isLoading := False, error := Some submit_failed_text \<rparr>
              else s1)
      | _ \<Rightarrow> s\<lparr> isLoading := False, error := Some submit_failed_text \<rparr>)"

text \<open>
  The events the panel reacts to. The submit button is rendered with the \<open>disabled\<close>
  attribute when the question is blank or a submission is loading, and a disabled button
  delivers no click; the key handler calls \<open>submitQuestion\<close> directly. The attribute is
  read from the current state: that is the page as long as the last \<open>render\<close> completed,
  so the click is modelled for states in which \<open>render_throws\<close> is false.
\<close>

datatype 'c panel_event =
  InputQuestion string
| ClickSubmit
| KeydownCtrlEnter
| ClickClearHistory
| ClickToggleJson
| FetchSettled fetch_result string
| ContextRefreshed "'c option"
| HealthChecked bool

definition submit_button_disabled :: "'c panel_state \<Rightarrow> bool" where
  "submit_button_disabled s = (trim (question s) = [] \<or> isLoading s)"

definition connection_error_text :: string where
  "connection_error_text = ''Cannot connect to local backend server. Make sure the server is running on http://localhost:5000''"

fun handle_event :: "'c panel_event \<Rightarrow> 'c panel_state \<Rightarrow> 'c panel_state \<times> 'c ask_request list" where
  "handle_event (InputQuestion v) s = (s\<lparr> question := v \<rparr>, [])"
| "handle_event ClickSubmit s = (if submit_button_disabled s then (s, []) else submitQuestion s)"
| "handle_event KeydownCtrlEnter s = submitQuestion s"
| "handle_event ClickClearHistory s = (s\<lparr> conversationHistory := [] \<rparr>, [])"
| "handle_event ClickToggleJson s = (s\<lparr> isJsonExpanded := \<not> isJsonExpanded s \<rparr>, [])"
| "handle_event (FetchSettled r now) s = (submitQuestion_settled r now s, [])"
| "handle_event (ContextRefreshed (Some c)) s = (s\<lparr> pageContext := Some c \<rparr>, [])"
| "handle_event (ContextRefreshed None) s =
     (s\<lparr> error := Some ''Failed to extract page context'' \<rparr>, [])"
| "handle_event (HealthChecked True) s =
     (s\<lparr> connectionStatus := ''connected'', error := None \<rparr>, [])"
| "handle_event (HealthChecked False) s =
     (s\<lparr> connectionStatus := ''disconnected'', error := Some connection_error_text \<rparr>, [])"

text \<open>A run of the panel: the state after a list of events, and all requests sent.\<close>

fun run :: "'c panel_event list \<Rightarrow> 'c panel_state \<Rightarrow> 'c panel_state \<times> 'c ask_request list" where
  "run [] s = (s, [])"
| "run (e # es) s =
     (let (s', out) = handle_event e s; (s'', outs) = run es s' in (s'', out @ outs))"

text \<open>
  One successful submission: the user types the question, submits with the button, and
  the backend answers with status 200 and an answer.
\<close>

definition successful_submission :: "string \<times> string \<times> string \<Rightarrow> 'c panel_event list" where
  "successful_submission e =
     (case e of (q, a, now) \<Rightarrow>
        [InputQuestion q, ClickSubmit, FetchSettled (FetchResponse True 200 (Some (Some a))) now])"

definition entry_of :: "string \<times> string \<times> string \<Rightarrow> conversation_item" where
  "entry_of e =
     (case e of (q, a, now) \<Rightarrow> \<lparr> ci_question = q, ci_answer = Some a, ci_timestamp = now \<rparr>)"

section \<open>Concrete inputs\<close>

text \<open>
  A document with eleven heading elements: the first reads \<open>Intro\<close>, the next nine are
  blank, and the eleventh reads \<open>Late heading\<close>. A button and a form follow.
\<close>

definition blank_heading :: dom_element where
  "blank_heading =
     \<lparr> tagName = ''H2'', textContent = ''  '', attributes = [], value_prop = None,
       type_prop = None, href_prop = None, content_prop = None, action_prop = [],
       method_prop = [], controls = [] \<rparr>"

definition sample_document :: document where
  "sample_document =
     \<lparr> doc_title = ''Docs'', location_href = ''https://a.example/docs'',
       elements =
         [blank_heading\<lparr> tagName := ''H1'', textContent := '' Intro '' \<rparr>]
         @ replicate 9 blank_heading
         @ [blank_heading\<lparr> tagName := ''H3'', textContent := ''Late heading'' \<rparr>,
            blank_heading\<lparr> tagName := ''BUTTON'', textContent := '' Sign up '',
                            type_prop := Some ''submit'' \<rparr>,
            blank_heading\<lparr> tagName := ''FORM'', textContent := [] \<rparr>],
       selection = [] \<rparr>"

text \<open>A context for a documentation page with one heading, and contexts with \<open>n\<close> links.\<close>

definition docs_context :: page_context where
  "docs_context =
     empty_context\<lparr> title := ''Docs'', url := ''https://a.example/docs'',
                     headings := [\<lparr> level = Some 1, h_text = ''Getting Started'' \<rparr>] \<rparr>"

definition context_with_actions :: "nat \<Rightarrow> page_context" where
  "context_with_actions n =
     empty_context\<lparr> actions := replicate n \<lparr> a_text = ''Next'', a_type = ''link'', a_href = None \<rparr> \<rparr>"

text \<open>
  Panel states: one ready to submit (a context, one entry in the history), one with a
  submission outstanding, one with an empty history; and eleven submissions.
\<close>

definition sample_entry :: conversation_item where
  "sample_entry = \<lparr> ci_question = ''Why?'', ci_answer = Some ''Because.'', ci_timestamp = ''t0'' \<rparr>"

definition ready_state :: "page_context panel_state" where
  "ready_state =
     initial_state\<lparr> pageContext := Some empty_context, conversationHistory := [sample_entry] \<rparr>"

definition loading_state :: "page_context panel_state" where
  "loading_state = ready_state\<lparr> question := ''Why?'', isLoading := True \<rparr>"

definition fresh_state :: "page_context panel_state" where
  "fresh_state = initial_state\<lparr> pageContext := Some empty_context \<rparr>"

definition eleven_submissions :: "(string \<times> string \<times> string) list" where
  "eleven_submissions =
     [(''q1'', ''a1'', ''t1''), (''q2'', ''a2'', ''t2''), (''q3'', ''a3'', ''t3''),
      (''q4'', ''a4'', ''t4''), (''q5'', ''a5'', ''t5''), (''q6'', ''a6'', ''t6''),
      (''q7'', ''a7'', ''t7''), (''q8'', ''a8'', ''t8''), (''q9'', ''a9'', ''t9''),
      (''q10'', ''a10'', ''t10''), (''q11'', ''a11'', ''t11'')]"

section \<open>Properties of the extractor\<close>

lemma slice0: "slice 0 n xs = take n xs" by (simp add: slice_def)

text \<open>
  Claim C3. For every document, the context produced by the extractor, in the content
  script and in the variant the background script injects, has at most 10 headings, at
  most 20 actions and at most 5 forms, and no heading and no action in it has an empty
  text.
\<close>

theorem extractor_bounds:
  "length (headings (extractPageContext now elapsed d)) \<le> 10
   \<and> length (actions (extractPageContext now elapsed d)) \<le> 20
   \<and> length (forms (extractPageContext now elapsed d)) \<le> 5
   \<and> (\<forall>h \<in> set (headings (extractPageContext now elapsed d)). h_text h \<noteq> [])
   \<and> (\<forall>a \<in> set (actions (extractPageContext now elapsed d)). a_text a \<noteq> [])
   \<and> length (headings (extractPageContext_background now d)) \<le> 10
   \<and> length (actions (extractPageContext_background now d)) \<le> 20
   \<and> length (forms (extractPageContext_background now d)) \<le> 5
   \<and> (\<forall>h \<in> set (headings (extractPageContext_background now d)). h_text h \<noteq> [])
   \<and> (\<forall>a \<in> set (actions (extractPageContext_background now d)). a_text a \<noteq> [])"
proof -
  have len: "length (filter P (map f (take n xs))) \<le> n" for P and f :: "'a \<Rightarrow> 'b" and n xs
    by (rule order_trans [OF length_filter_le]) simp
  have h1: "length (content_headings d) \<le> 10"
    unfolding content_headings_def slice0 by (rule len)
  have a1: "length (content_actions d) \<le> 20"
    unfolding content_actions_def slice0 by (rule len)
  have f1: "length (content_forms d) \<le> 5"
    by (simp add: content_forms_def slice0)
  have h2: "length (background_headings d) \<le> 10"
    unfolding background_headings_def slice0 by (rule len)
  have a2: "length (background_actions d) \<le> 20"
    unfolding background_actions_def slice0 by (rule len)
  have f2: "length (background_forms d) \<le> 5"
    by (simp add: background_forms_def slice0)
  have t1: "\<forall>h \<in> set (content_headings d). h_text h \<noteq> []"
    by (auto simp: content_headings_def content_heading_ok_def)
  have t2: "\<forall>a \<in> set (content_actions d). a_text a \<noteq> []"
    by (auto simp: content_actions_def content_action_ok_def)
  have t3: "\<forall>h \<in> set (background_headings d). h_text h \<noteq> []"
    by (auto simp: background_headings_def)
  have t4: "\<forall>a \<in> set (background_actions d). a_text a \<noteq> []"
    by (auto simp: background_actions_def)
  show ?thesis
    using h1 a1 f1 h2 a2 f2 t1 t2 t3 t4
    by (simp add: extractPageContext_def extractPageContext_background_def)
qed

theorem extractor_bounds_witness:
  "headings (extractPageContext ''t'' 3 sample_document) = [\<lparr> level = Some 1, h_text = ''Intro'' \<rparr>]
   \<and> h_text (hd (headings (extractPageContext ''t'' 3 sample_document))) \<noteq> []
   \<and> length (actions (extractPageContext_background ''t'' sample_document)) \<le> 20
   \<and> a_text (hd (actions (extractPageContext_background ''t'' sample_document))) \<noteq> []"
proof -
  have e1: "headings (extractPageContext ''t'' 3 sample_document) = [\<lparr> level = Some 1, h_text = ''Intro'' \<rparr>]"
    by code_simp
  have e2: "actions (extractPageContext_background ''t'' sample_document)
            = [\<lparr> a_text = ''Sign up'', a_type = ''button'', a_href = None \<rparr>]"
    by code_simp
  show ?thesis
    using extractor_bounds [where now = "''t''" and elapsed = 3 and d = sample_document] e1 e2 by simp
qed

text \<open>
  Claim C10. The caps are applied before the text filters: the headings of the context
  are the filtered entries of the first 10 heading elements in document order, the
  actions those of the first 20 candidate elements, and an entry that does not come from
  one of these elements is not in the context, whatever its text and however few entries
  remain after filtering.
\<close>

theorem slice_before_filter:
  "headings (extractPageContext now elapsed d)
     = filter content_heading_ok (map heading_of (take 10 (querySelectorAll sel_headings d)))
   \<and> actions (extractPageContext now elapsed d)
     = filter content_action_ok
         (map content_action_of (take 20 (querySelectorAll sel_actions_content d)))
   \<and> headings (extractPageContext_background now d)
     = filter (\<lambda>h. h_text h \<noteq> []) (map heading_of (take 10 (querySelectorAll sel_headings d)))
   \<and> actions (extractPageContext_background now d)
     = filter (\<lambda>a. a_text a \<noteq> [])
         (map background_action_of (take 20 (querySelectorAll sel_actions_background d)))
   \<and> (\<forall>h. h \<notin> heading_of ` set (take 10 (querySelectorAll sel_headings d))
          \<longrightarrow> h \<notin> set (headings (extractPageContext now elapsed d))
              \<and> h \<notin> set (headings (extractPageContext_background now d)))
   \<and> (\<forall>a. a \<notin> content_action_of ` set (take 20 (querySelectorAll sel_actions_content d))
          \<longrightarrow> a \<notin> set (actions (extractPageContext now elapsed d)))
   \<and> (\<forall>a. a \<notin> background_action_of ` set (take 20 (querySelectorAll sel_actions_background d))
          \<longrightarrow> a \<notin> set (actions (extractPageContext_background now d)))"
  by (auto simp: extractPageContext_def extractPageContext_background_def content_headings_def
        content_actions_def background_headings_def background_actions_def slice0)

theorem slice_before_filter_witness:
  "length (querySelectorAll sel_headings sample_document) = 11
   \<and> h_text (heading_of (querySelectorAll sel_headings sample_document ! 10)) = ''Late heading''
   \<and> length (headings (extractPageContext ''t'' 3 sample_document)) < 10
   \<and> heading_of (querySelectorAll sel_headings sample_document ! 10)
       \<notin> set (headings (extractPageContext ''t'' 3 sample_document))
   \<and> heading_of (querySelectorAll sel_headings sample_document ! 10)
       \<notin> set (headings (extractPageContext_background ''t'' sample_document))"
proof -
  have n: "length (querySelectorAll sel_headings sample_document) = 11" by code_simp
  have t: "h_text (heading_of (querySelectorAll sel_headings sample_document ! 10)) = ''Late heading''"
    by code_simp
  have l: "length (headings (extractPageContext ''t'' 3 sample_document)) < 10" by code_simp
  have out: "heading_of (querySelectorAll sel_headings sample_document ! 10)
               \<notin> heading_of ` set (take 10 (querySelectorAll sel_headings sample_document))"
    by code_simp
  show ?thesis
    using slice_before_filter [where now = "''t''" and elapsed = 3 and d = sample_document] n t l out by blast
qed

section \<open>Properties of the fallback answerer and the classifier\<close>

lemma answers_nonempty:
  "page_identity_answer c \<noteq> []" "title_answer c \<noteq> []" "url_answer c \<noteq> []"
  "headings_answer c \<noteq> []" "actions_answer c \<noteq> []" "selection_answer c \<noteq> []"
  "summary_answer c \<noteq> []" "help_answer c \<noteq> []" "default_answer c \<noteq> []"
  by (simp_all add: page_identity_answer_def title_answer_def url_answer_def
        headings_answer_def actions_answer_def selection_answer_def summary_answer_def
        help_answer_def default_answer_def Let_def)

text \<open>
  Claim C4. The fallback answerer is total and its answer is never the empty string: for
  every question and every context, the empty context included, every branch returns a
  template that starts with fixed text.
\<close>

theorem fallback_total_nonempty: "generateContextualAnswer q c \<noteq> []"
  by (simp add: generateContextualAnswer_def Let_def answers_nonempty)

theorem fallback_total_nonempty_witness:
  "generateContextualAnswer [] empty_context \<noteq> []
   \<and> generateContextualAnswer [] empty_context = default_answer empty_context"
proof -
  have "generateContextualAnswer [] empty_context = default_answer empty_context"
    by (simp add: generateContextualAnswer_def toLowerCase_def)
  then show ?thesis
    using fallback_total_nonempty [of "[]" empty_context] by simp
qed

text \<open>
  Claim C9. The keyword classes are tested in the order page identity, title, url and
  links, headings and sections, actions and buttons, selection, summary, help, and the
  first class that matches gives the answer: \<open>generateContextualAnswer\<close> agrees with the
  search through the ordered list of classes. In particular a question whose lower-cased
  text contains both \<open>title\<close> and \<open>heading\<close>, and does not match the page-identity class,
  gets the title answer.
\<close>

theorem keyword_priority:
  "generateContextualAnswer q c = answer_by_priority q c
   \<and> (str_includes (toLowerCase q) ''title''
        \<and> str_includes (toLowerCase q) ''heading''
        \<and> \<not> (str_includes (toLowerCase q) ''what''
               \<and> str_includes (toLowerCase q) ''page'')
      \<longrightarrow> generateContextualAnswer q c = title_answer c)"
  by (simp add: generateContextualAnswer_def answer_by_priority_def priority_order_def Let_def)

theorem keyword_priority_witness:
  "str_includes (toLowerCase ''Title or heading?'') ''title''
   \<and> str_includes (toLowerCase ''Title or heading?'') ''heading''
   \<and> generateContextualAnswer ''Title or heading?'' docs_context = title_answer docs_context
   \<and> title_answer docs_context \<noteq> headings_answer docs_context"
proof -
  have a: "str_includes (toLowerCase ''Title or heading?'') ''title''" by code_simp
  have b: "str_includes (toLowerCase ''Title or heading?'') ''heading''" by code_simp
  have c: "\<not> str_includes (toLowerCase ''Title or heading?'') ''what''" by code_simp
  have d: "title_answer docs_context \<noteq> headings_answer docs_context" by code_simp
  show ?thesis
    using keyword_priority [of "''Title or heading?''" docs_context] a b c d by blast
qed

text \<open>
  The classifier at three actions: the count is not below 3 and not above 10, and the
  interactivity is \<open>low\<close>, not \<open>medium\<close>.
\<close>

theorem interactivity_threshold_counterexample:
  "\<not> (length (actions (context_with_actions 3)) < 3)
   \<and> length (actions (context_with_actions 3)) \<le> 10
   \<and> interactivity (analyzePageContext (context_with_actions 3)) \<noteq> ''medium''
   \<and> interactivity (analyzePageContext (context_with_actions 3)) = ''low''"
  by (simp add: analyzePageContext_def context_with_actions_def empty_context_def)

text \<open>
  Claim C8, amended. The complexity is \<open>low\<close> below 3 headings, \<open>medium\<close> from 3 to 5 and
  \<open>high\<close> from 6 on; the interactivity is \<open>low\<close> up to 3 actions, \<open>medium\<close> from 4 to 10
  and \<open>high\<close> from 11 on.
\<close>

theorem classifier_thresholds:
  "(length (headings context) < 3 \<longrightarrow> complexity (analyzePageContext context) = ''low'')
   \<and> (3 \<le> length (headings context) \<and> length (headings context) < 6
        \<longrightarrow> complexity (analyzePageContext context) = ''medium'')
   \<and> (6 \<le> length (headings context) \<longrightarrow> complexity (analyzePageContext context) = ''high'')
   \<and> (length (actions context) \<le> 3 \<longrightarrow> interactivity (analyzePageContext context) = ''low'')
   \<and> (4 \<le> length (actions context) \<and> length (actions context) \<le> 10
        \<longrightarrow> interactivity (analyzePageContext context) = ''medium'')
   \<and> (11 \<le> length (actions context) \<longrightarrow> interactivity (analyzePageContext context) = ''high'')"
  by (simp add: analyzePageContext_def)

theorem classifier_thresholds_witness:
  "length (headings (context_with_actions 4)) < 3
   \<and> complexity (analyzePageContext (context_with_actions 4)) = ''low''
   \<and> 4 \<le> length (actions (context_with_actions 4))
   \<and> length (actions (context_with_actions 4)) \<le> 10
   \<and> interactivity (analyzePageContext (context_with_actions 4)) = ''medium''"
proof -
  have h: "length (headings (context_with_actions 4)) = 0"
    by (simp add: context_with_actions_def empty_context_def)
  have a: "length (actions (context_with_actions 4)) = 4"
    by (simp add: context_with_actions_def)
  show ?thesis
    using classifier_thresholds [of "context_with_actions 4"] h a by simp
qed

section \<open>Properties of the dispatcher\<close>

text \<open>
  Claim C2. When the remote call fails (the promise is rejected, as on a timeout or a
  non-success status, or the payload lacks the structure read from it), the dispatcher
  resolves with exactly the fallback answer for the same question and context; it never
  rejects. A well-formed payload whose content is \<open>null\<close> or empty is not a failure: the
  source answers it with a fixed sentence.
\<close>

theorem dispatcher_falls_back:
  "remote_call_failed outcome \<Longrightarrow>
     generateAIResponse outcome q c
       = Inr (generateContextualAnswer q c)"
  by (auto simp: remote_call_failed_def malformed_payload_def generateAIResponse_def
        generateAIResponse_try_def split: remote_outcome.splits option.splits list.splits)

theorem dispatcher_falls_back_witness:
  "remote_call_failed Rejected
   \<and> generateAIResponse Rejected ''Title or heading?'' docs_context
       = Inr (generateContextualAnswer ''Title or heading?'' docs_context)
   \<and> remote_call_failed (Resolved (ChatCompletion (Some [])))
   \<and> generateAIResponse (Resolved (ChatCompletion (Some []))) ''Title or heading?'' docs_context
       = Inr (generateContextualAnswer ''Title or heading?'' docs_context)"
proof -
  have a: "remote_call_failed Rejected" by (simp add: remote_call_failed_def)
  have b: "remote_call_failed (Resolved (ChatCompletion (Some [])))"
    by (simp add: remote_call_failed_def malformed_payload_def)
  show ?thesis
    using a b dispatcher_falls_back [OF a, of "''Title or heading?''" docs_context]
      dispatcher_falls_back [OF b, of "''Title or heading?''" docs_context]
    by simp
qed

section \<open>Properties of the coordinator\<close>

text \<open>
  A result that arrives after an invalidation is stored all the same when it comes from
  the tab that is current: tab 1 is current, the navigation of tab 1 completes and clears
  the context, then the result extracted from the page that was left arrives from tab 1.
\<close>

theorem stale_result_counterexample:
  "currentContext (handleContextExtracted old_page_context (Some tab_one)
                     (tabs_onUpdated 1 ''complete'' True session_on_tab_one))
     \<noteq> currentContext (tabs_onUpdated 1 ''complete'' True session_on_tab_one)"
  by (simp add: handleContextExtracted_def tabs_onUpdated_def session_on_tab_one_def tab_one_def)

text \<open>
  Claim C1, amended. An extraction result pushed by a content script is accepted exactly
  when its sender tab is the current tab: a result with no sender tab, or from a tab other
  than the current one, leaves the coordinator's state unchanged, and a result from the
  current tab sets the stored context to the result with the tab's id and url. So a late
  result of a tab that was left never changes the state once another tab has been
  activated, or has completed a navigation: it is dropped while the activation listener
  still waits and the old context is still stored, and the context is absent after the
  listener has resumed and after a completed navigation.
\<close>

theorem result_accepted_by_tab_id:
  "(sender = None \<or> (\<exists>tab. sender = Some tab \<and> Some (tab_id tab) \<noteq> currentTabId s)
      \<longrightarrow> handleContextExtracted rc sender s = s)
   \<and> (Some (tab_id tab) = currentTabId s
      \<longrightarrow> currentContext (handleContextExtracted rc (Some tab) s)
            = Some \<lparr> ctx = rc, tabId = tab_id tab, tabUrl = tab_url tab \<rparr>)
   \<and> (tab_id tab \<noteq> other
      \<longrightarrow> handleContextExtracted rc (Some tab) (tabs_onActivated other s)
            = tabs_onActivated other s
          \<and> currentContext
                (tabs_onActivated_resumed
                   (handleContextExtracted rc (Some tab) (tabs_onActivated other s))) = None
          \<and> currentContext
                (handleContextExtracted rc (Some tab)
                   (tabs_onActivated_resumed (tabs_onActivated other s))) = None
          \<and> currentContext
                (handleContextExtracted rc (Some tab) (tabs_onUpdated other ''complete'' True s))
              = None)"
  by (auto simp: handleContextExtracted_def tabs_onActivated_def tabs_onActivated_resumed_def
        tabs_onUpdated_def)

theorem result_accepted_by_tab_id_witness:
  "handleContextExtracted empty_context None session_with_context = session_with_context
   \<and> handleContextExtracted empty_context (Some tab_two) session_with_context
       = session_with_context
   \<and> currentContext (handleContextExtracted empty_context (Some tab_one) session_with_context)
       = Some \<lparr> ctx = empty_context, tabId = 1, tabUrl = ''https://a.example/old'' \<rparr>
   \<and> currentContext (handleContextExtracted empty_context (Some tab_one)
                        (tabs_onActivated 2 session_with_context))
       = currentContext session_with_context
   \<and> currentContext (handleContextExtracted empty_context (Some tab_one)
                        (tabs_onActivated_resumed (tabs_onActivated 2 session_with_context)))
       = None"
proof -
  have a: "Some (tab_id tab_two) \<noteq> currentTabId session_with_context"
    by (simp add: tab_two_def session_with_context_def)
  have b: "Some (tab_id tab_one) = currentTabId session_with_context"
    by (simp add: tab_one_def session_with_context_def)
  have c: "tab_id tab_one \<noteq> 2" by (simp add: tab_one_def)
  have d: "tab_id tab_one = 1" "tab_url tab_one = ''https://a.example/old''"
    by (simp_all add: tab_one_def)
  have e: "currentContext (tabs_onActivated 2 session_with_context)
           = currentContext session_with_context"
    by (simp add: tabs_onActivated_def)
  note t1 = result_accepted_by_tab_id [where sender = None and s = session_with_context
      and rc = empty_context and tab = tab_one and other = 2]
  note t2 = result_accepted_by_tab_id [where sender = "Some tab_two"
      and s = session_with_context and rc = empty_context and tab = tab_one and other = 2]
  show ?thesis using t1 t2 a b c d e by auto
qed

section \<open>Properties of the panel controller\<close>

lemma dropWhile_all_iff: "(\<forall>x\<in>set (dropWhile P s). P x) \<longleftrightarrow> dropWhile P s = []"
proof
  assume all: "\<forall>x\<in>set (dropWhile P s). P x"
  show "dropWhile P s = []"
  proof (rule ccontr)
    assume ne: "dropWhile P s \<noteq> []"
    then have "\<not> P (hd (dropWhile P s))" by (rule hd_dropWhile)
    moreover from ne have "hd (dropWhile P s) \<in> set (dropWhile P s)" by simp
    ultimately show False using all by blast
  qed
next
  assume e: "dropWhile P s = []"
  show "\<forall>x\<in>set (dropWhile P s). P x" unfolding e by simp
qed

lemma trim_Nil_iff: "trim s = [] \<longleftrightarrow> (\<forall>c\<in>set s. js_whitespace c)"
proof -
  have "trim s = [] \<longleftrightarrow> (\<forall>x\<in>set (dropWhile js_whitespace s). js_whitespace x)"
    by (simp add: trim_def dropWhile_eq_Nil_conv)
  also have "\<dots> \<longleftrightarrow> dropWhile js_whitespace s = []" by (rule dropWhile_all_iff)
  also have "\<dots> \<longleftrightarrow> (\<forall>c\<in>set s. js_whitespace c)" by (simp add: dropWhile_eq_Nil_conv)
  finally show ?thesis .
qed

text \<open>
  Claim C5. Submitting a question that is empty or consists of white space only, by the
  button or by the keyboard shortcut, sends no request and leaves the whole panel state,
  the conversation history included, unchanged, in every panel state.
\<close>

theorem blank_question_rejected:
  "\<forall>c \<in> set (question s). js_whitespace c \<Longrightarrow>
     submitQuestion s = (s, [])
     \<and> handle_event ClickSubmit s = (s, [])
     \<and> handle_event KeydownCtrlEnter s = (s, [])"
  by (simp add: submitQuestion_def trim_Nil_iff [symmetric])

theorem blank_question_rejected_witness:
  "submitQuestion (ready_state\<lparr> question := [] \<rparr>) = (ready_state\<lparr> question := [] \<rparr>, [])
   \<and> handle_event KeydownCtrlEnter (ready_state\<lparr> question := ''   '' \<rparr>)
       = (ready_state\<lparr> question := ''   '' \<rparr>, [])
   \<and> conversationHistory (fst (handle_event KeydownCtrlEnter (ready_state\<lparr> question := ''   '' \<rparr>)))
       = [sample_entry]
   \<and> snd (submitQuestion (ready_state\<lparr> question := ''Why?'' \<rparr>)) \<noteq> []"
proof -
  have a: "\<forall>c \<in> set (question (ready_state\<lparr> question := [] \<rparr>)). js_whitespace c" by simp
  have b: "\<forall>c \<in> set (question (ready_state\<lparr> question := ''   '' \<rparr>)). js_whitespace c"
    by (simp add: js_whitespace_def)
  have c: "conversationHistory (ready_state\<lparr> question := ''   '' \<rparr>) = [sample_entry]"
    by (simp add: ready_state_def)
  have d: "snd (submitQuestion (ready_state\<lparr> question := ''Why?'' \<rparr>)) \<noteq> []"
    by (simp add: submitQuestion_def ready_state_def initial_state_def trim_def js_whitespace_def
          render_throws_def sample_entry_def Let_def)
  show ?thesis
    using blank_question_rejected [OF a] blank_question_rejected [OF b] c d by simp
qed

lemma settled_history_le:
  "length (conversationHistory s) \<le> 10 \<Longrightarrow>
     length (conversationHistory (submitQuestion_settled r now s)) \<le> 10"
  by (auto simp: submitQuestion_settled_def slice0 Let_def
        split: fetch_result.splits bool.splits option.splits)

lemma handle_event_history_le:
  "length (conversationHistory s) \<le> 10 \<Longrightarrow>
     length (conversationHistory (fst (handle_event e s))) \<le> 10"
proof (cases e)
  case (FetchSettled r now)
  assume "length (conversationHistory s) \<le> 10"
  with FetchSettled show ?thesis by (simp add: settled_history_le)
next
  case (ContextRefreshed c)
  assume "length (conversationHistory s) \<le> 10"
  with ContextRefreshed show ?thesis by (cases c) simp_all
next
  case (HealthChecked b)
  assume "length (conversationHistory s) \<le> 10"
  with HealthChecked show ?thesis by (cases b) simp_all
qed (simp_all add: submitQuestion_def Let_def)

lemma run_history_le:
  "length (conversationHistory s) \<le> 10 \<Longrightarrow>
     length (conversationHistory (fst (run es s))) \<le> 10"
proof (induction es arbitrary: s)
  case Nil
  then show ?case by simp
next
  case (Cons e es)
  from Cons.prems have "length (conversationHistory (fst (handle_event e s))) \<le> 10"
    by (rule handle_event_history_le)
  then have "length (conversationHistory (fst (run es (fst (handle_event e s))))) \<le> 10"
    by (rule Cons.IH)
  then show ?case by (simp add: split_beta Let_def)
qed

lemma run_append:
  "run (xs @ ys) s = (fst (run ys (fst (run xs s))), snd (run xs s) @ snd (run ys (fst (run xs s))))"
  by (induction xs arbitrary: s) (simp_all add: split_beta Let_def)

lemma render_throws_iff:
  "render_throws s \<longleftrightarrow> (\<exists>item \<in> set (conversationHistory s). ci_answer item = None)"
  by (simp add: render_throws_def list_ex_iff)

lemma run_successful_submission:
  assumes "trim q \<noteq> []" and "pageContext s = Some c" and "\<not> isLoading s"
    and "\<not> render_throws s"
  shows "run (successful_submission (q, a, now)) s
           = (s\<lparr> question := [], answer := Some a, isLoading := False, error := None,
                  conversationHistory := entry_of (q, a, now) # take 9 (conversationHistory s) \<rparr>,
              [\<lparr> ask_question = q, ask_context = c \<rparr>])"
proof -
  from assms(4) have "\<forall>item \<in> set (take 9 (conversationHistory s)). ci_answer item \<noteq> None"
    by (auto simp: render_throws_iff dest: in_set_takeD)
  with assms show ?thesis
    by (simp add: successful_submission_def submit_button_disabled_def submitQuestion_def
          submitQuestion_settled_def entry_of_def slice0 Let_def render_throws_iff)
qed

lemma take_mid: "take 10 (xs @ x # take 9 h) = take 10 (xs @ x # h)"
  by (cases "10 - length xs") (simp_all add: min_def)

lemma run_submissions:
  "\<forall>e \<in> set es. trim (fst e) \<noteq> [] \<Longrightarrow> pageContext s = Some c \<Longrightarrow> \<not> isLoading s \<Longrightarrow>
   length (conversationHistory s) \<le> 10 \<Longrightarrow> \<not> render_throws s \<Longrightarrow>
     conversationHistory (fst (run (concat (map successful_submission es)) s))
       = take 10 (rev (map entry_of es) @ conversationHistory s)
     \<and> snd (run (concat (map successful_submission es)) s)
       = map (\<lambda>e. \<lparr> ask_question = fst e, ask_context = c \<rparr>) es"
proof (induction es arbitrary: s)
  case Nil
  then show ?case by simp
next
  case (Cons e es)
  obtain q a now where e: "e = (q, a, now)" by (cases e) auto
  let ?s1 = "s\<lparr> question := [], answer := Some a, isLoading := False, error := None,
                conversationHistory := entry_of (q, a, now) # take 9 (conversationHistory s) \<rparr>"
  from Cons.prems e have q: "trim q \<noteq> []" by simp
  have r1: "run (successful_submission e) s = (?s1, [\<lparr> ask_question = q, ask_context = c \<rparr>])"
    unfolding e using q Cons.prems(2,3,5) by (rule run_successful_submission)
  have ih: "conversationHistory (fst (run (concat (map successful_submission es)) ?s1))
       = take 10 (rev (map entry_of es) @ conversationHistory ?s1)
     \<and> snd (run (concat (map successful_submission es)) ?s1)
       = map (\<lambda>e. \<lparr> ask_question = fst e, ask_context = c \<rparr>) es"
  proof (intro Cons.IH)
    from Cons.prems(5) show "\<not> render_throws ?s1"
      by (auto simp: render_throws_iff entry_of_def dest: in_set_takeD)
  qed (use Cons.prems in simp_all)
  have h: "take 10 (rev (map entry_of es) @ conversationHistory ?s1)
           = take 10 (rev (map entry_of (e # es)) @ conversationHistory s)"
    using take_mid [of "rev (map entry_of es)" "entry_of e" "conversationHistory s"]
    by (simp add: e)
  show ?case
    using ih h r1 by (simp add: run_append e)
qed

text \<open>
  Claim C6. The conversation history never exceeds 10 entries, whatever events the panel
  receives from its initial state; a successful response prepends its entry to the first
  9 entries of the history; and after 11 successful submissions from an empty history the
  history holds the 2nd to the 11th entry, newest first: the 1st entry is evicted and the
  first element is the 11th.
\<close>

theorem history_bounded:
  "length (conversationHistory (fst (run evs (initial_state :: 'c panel_state)))) \<le> 10
   \<and> conversationHistory (submitQuestion_settled (FetchResponse True status (Some a)) now s)
       = \<lparr> ci_question = question s, ci_answer = a, ci_timestamp = now \<rparr>
         # take 9 (conversationHistory s)
   \<and> (length es = 11 \<and> (\<forall>e \<in> set es. trim (fst e) \<noteq> []) \<and> pageContext s0 = Some c
        \<and> \<not> isLoading s0 \<and> conversationHistory s0 = []
      \<longrightarrow> conversationHistory (fst (run (concat (map successful_submission es)) s0))
            = rev (map entry_of (tl es))
          \<and> hd (conversationHistory (fst (run (concat (map successful_submission es)) s0)))
            = entry_of (es ! 10)
          \<and> snd (run (concat (map successful_submission es)) s0)
            = map (\<lambda>e. \<lparr> ask_question = fst e, ask_context = c \<rparr>) es)"
proof (intro conjI impI)
  show "length (conversationHistory (fst (run evs (initial_state :: 'c panel_state)))) \<le> 10"
    by (rule run_history_le) (simp add: initial_state_def)
  show "conversationHistory (submitQuestion_settled (FetchResponse True status (Some a)) now s)
       = \<lparr> ci_question = question s, ci_answer = a, ci_timestamp = now \<rparr>
         # take 9 (conversationHistory s)"
    by (simp add: submitQuestion_settled_def slice0 Let_def)
next
  assume A: "length es = 11 \<and> (\<forall>e \<in> set es. trim (fst e) \<noteq> []) \<and> pageContext s0 = Some c
        \<and> \<not> isLoading s0 \<and> conversationHistory s0 = []"
  then have rs: "conversationHistory (fst (run (concat (map successful_submission es)) s0))
       = take 10 (rev (map entry_of es) @ conversationHistory s0)
     \<and> snd (run (concat (map successful_submission es)) s0)
       = map (\<lambda>e. \<lparr> ask_question = fst e, ask_context = c \<rparr>) es"
    by (intro run_submissions) (simp_all add: render_throws_def)
  from A obtain x xs where es: "es = x # xs" and xs: "length xs = 10"
    by (cases es) auto
  have t: "take 10 (rev (map entry_of es)) = rev (map entry_of (tl es))"
    using xs by (simp add: es)
  from rs A t show h: "conversationHistory (fst (run (concat (map successful_submission es)) s0))
            = rev (map entry_of (tl es))" by simp
  from xs have ne: "xs \<noteq> []" by auto
  then have "hd (rev (map entry_of xs)) = entry_of (last xs)"
    by (simp add: hd_rev last_map)
  also have "last xs = xs ! 9" using xs ne by (simp add: last_conv_nth)
  finally have "hd (rev (map entry_of (tl es))) = entry_of (es ! 10)"
    by (simp add: es)
  then show "hd (conversationHistory (fst (run (concat (map successful_submission es)) s0)))
            = entry_of (es ! 10)"
    by (simp only: h)
  from rs show "snd (run (concat (map successful_submission es)) s0)
            = map (\<lambda>e. \<lparr> ask_question = fst e, ask_context = c \<rparr>) es" by simp
qed

theorem history_bounded_witness:
  "length eleven_submissions = 11
   \<and> length (conversationHistory
               (fst (run (concat (map successful_submission eleven_submissions)) fresh_state))) = 10
   \<and> hd (conversationHistory
            (fst (run (concat (map successful_submission eleven_submissions)) fresh_state)))
       = entry_of (''q11'', ''a11'', ''t11'')
   \<and> entry_of (''q1'', ''a1'', ''t1'')
       \<notin> set (conversationHistory
                (fst (run (concat (map successful_submission eleven_submissions)) fresh_state)))"
proof -
  have n: "length eleven_submissions = 11" by (simp add: eleven_submissions_def)
  have q: "\<forall>e \<in> set eleven_submissions. trim (fst e) \<noteq> []"
    by (simp add: eleven_submissions_def trim_def js_whitespace_def)
  have s: "pageContext fresh_state = Some empty_context" "\<not> isLoading fresh_state"
    "conversationHistory fresh_state = []"
    by (simp_all add: fresh_state_def initial_state_def)
  have h: "conversationHistory
             (fst (run (concat (map successful_submission eleven_submissions)) fresh_state))
           = rev (map entry_of (tl eleven_submissions))"
    using history_bounded [where es = eleven_submissions and ?s0.0 = fresh_state
        and c = empty_context] n q s by blast
  show ?thesis
    unfolding h by (simp add: eleven_submissions_def entry_of_def)
qed

text \<open>
  Claim C7. With a submission outstanding the button is disabled and a click sends
  nothing, but the keyboard shortcut calls \<open>submitQuestion\<close>, whose guard does not read the
  loading flag: a second request is sent.
\<close>

theorem second_submit_while_loading:
  "isLoading loading_state
   \<and> handle_event ClickSubmit loading_state = (loading_state, [])
   \<and> handle_event KeydownCtrlEnter loading_state
       = (loading_state, [\<lparr> ask_question = ''Why?'', ask_context = empty_context \<rparr>])"
  by (simp add: loading_state_def ready_state_def initial_state_def submitQuestion_def
        submit_button_disabled_def trim_def js_whitespace_def render_throws_def
        sample_entry_def Let_def)

end
